theory Spec2Isabelle
  imports Main
begin

section \<open>The user facet of the system-manager client (src/api/admin/user.js)\<close>

text \<open>
  The class \<open>User\<close> offers three asynchronous operations, \<open>findById\<close>,
  \<open>findByIdAndUpdatePassword\<close> and \<open>emailExist\<close>. Each one wraps the same pipeline in a
  promise: assert the shape of the arguments, build the authorization header, make one
  call on the injected HTTP client, await it, pass the awaited value through
  \<open>_returnData\<close> and hand the result to \<open>resolve\<close>; whatever is thrown on the way is
  caught, passed through \<open>_returnData\<close> as well and handed to \<open>reject\<close>.

  The embedding keeps that shape. Values are JavaScript values, a thrown exception is the
  left summand of a sum, the promise is the value it settles with (or \<open>Pending\<close> when it
  never settles), and the client is a function on an explicit transport state, so that
  the calls made on it can be counted and two invocations can be run one after the other.
\<close>

subsection \<open>Values\<close>

text \<open>
  The values that travel through the operations: arguments, request bodies, responses and
  caught exceptions. An object is the list of its properties; a lookup takes the first
  entry of a name. Numbers are only ever compared with the literal \<open>200\<close>, so integers
  stand for them. An \<open>Error\<close> instance is the object of the properties that can be read
  from it.
\<close>

datatype jsval =
    JUndefined
  | JNull
  | JBool bool
  | JNum int
  | JStr string
  | JArr "jsval list"
  | JObj "(string \<times> jsval) list"

text \<open>
  \<open>js_prop v k\<close> is the member access \<open>v.k\<close> on a value other than \<open>undefined\<close> and
  \<open>null\<close> (on those the access throws, which the callers below write out). The only
  names read in the source are \<open>status\<close>, \<open>message\<close>, \<open>data\<close>, \<open>userId\<close>,
  \<open>oldPassword\<close> and \<open>newPassword\<close>; no primitive and no array has one of them.
\<close>

fun js_prop :: "jsval \<Rightarrow> string \<Rightarrow> jsval" where
  "js_prop (JObj ps) k = (case map_of ps k of Some v \<Rightarrow> v | None \<Rightarrow> JUndefined)"
| "js_prop _ k = JUndefined"

text \<open>
  lodash's \<open>_.get(object, path, defaultValue)\<close> for a one-name path: the lookup yields
  \<open>undefined\<close> on \<open>undefined\<close> and \<open>null\<close>, and the default replaces a result that is
  \<open>undefined\<close>, whether the property is absent or holds \<open>undefined\<close>.
\<close>

definition lodash_get :: "jsval \<Rightarrow> string \<Rightarrow> jsval \<Rightarrow> jsval" where
  "lodash_get object path defaultValue =
     (let result = (if object = JUndefined \<or> object = JNull then JUndefined
                    else js_prop object path)
      in if result = JUndefined then defaultValue else result)"

subsection \<open>The libraries at the boundary\<close>

text \<open>
  Three things the file uses are not part of it: the texts of the errors that the
  validator and the engine throw, and the rule that decides whether a string is an
  e-mail address. They are parameters of the model.
\<close>

datatype schema = JoiString | JoiStringEmail | JoiObject

record env =
  email_format :: "string \<Rightarrow> bool"
  validation_message :: "schema \<Rightarrow> jsval \<Rightarrow> string"
  type_error_message :: "jsval \<Rightarrow> string"

text \<open>
  The two kinds of exception the file itself can provoke. Neither carries a \<open>status\<close>
  or a \<open>data\<close> property; both carry a \<open>message\<close>.
\<close>

definition ValidationError :: "env \<Rightarrow> schema \<Rightarrow> jsval \<Rightarrow> jsval" where
  "ValidationError env sch v =
     JObj [(''name'', JStr ''ValidationError''),
           (''message'', JStr (validation_message env sch v))]"

definition TypeError :: "env \<Rightarrow> jsval \<Rightarrow> jsval" where
  "TypeError env v =
     JObj [(''name'', JStr ''TypeError''), (''message'', JStr (type_error_message env v))]"

text \<open>
  Modelled from the spec: the validator \<open>Joi\<close> is a library and not under src/. This is
  \<open>Joi.assert(v, Joi.string().required())\<close>. An assertion passes silently or throws a
  validation error at once; a required string is a string with at least one character
  (the string schema does not admit the empty string). A passing assertion yields the
  asserted value, which is the one the code goes on to use.
\<close>

fun joi_assert_string :: "env \<Rightarrow> jsval \<Rightarrow> jsval + string" where
  "joi_assert_string env (JStr s) =
     (if s = [] then Inl (ValidationError env JoiString (JStr s)) else Inr s)"
| "joi_assert_string env v = Inl (ValidationError env JoiString v)"

text \<open>
  Modelled from the spec: \<open>Joi.assert(v, Joi.string().email().required())\<close>, of the
  same library: a required string that is formatted as an e-mail address.
\<close>

fun joi_assert_email :: "env \<Rightarrow> jsval \<Rightarrow> jsval + string" where
  "joi_assert_email env (JStr s) =
     (if s = [] \<or> \<not> email_format env s
      then Inl (ValidationError env JoiStringEmail (JStr s)) else Inr s)"
| "joi_assert_email env v = Inl (ValidationError env JoiStringEmail v)"

text \<open>
  Modelled from the spec: \<open>Joi.assert(v, Joi.object().required())\<close>, of the same
  library: an object, with no demand on its fields.
\<close>

fun joi_assert_object :: "env \<Rightarrow> jsval \<Rightarrow> jsval + (string \<times> jsval) list" where
  "joi_assert_object env (JObj ps) = Inr ps"
| "joi_assert_object env v = Inl (ValidationError env JoiObject v)"

text \<open>
  \<open>Boom.badRequest(message)\<close> builds the library's error object for status 400 from the
  message it is given. The object is kept symbolic: \<open>BoomBadRequest m\<close> is the result
  of the call with argument \<open>m\<close>. What \<open>_returnData\<close> returns is either such an
  error or a value taken from the response.
\<close>

datatype retval = Data jsval | BoomBadRequest jsval

subsection \<open>The private helpers\<close>

text \<open>
  \<open>_returnData(retData, def = {})\<close>. Reading \<open>retData.status\<close> throws a \<open>TypeError\<close>
  when \<open>retData\<close> is \<open>undefined\<close> or \<open>null\<close>; \<open>!==\<close> is strict, so only the number
  200 reaches the \<open>else\<close> branch. The default \<open>def\<close> is the empty object at every call in
  the file.
\<close>

definition returnData :: "env \<Rightarrow> jsval \<Rightarrow> jsval \<Rightarrow> jsval + retval" where
  "returnData env retData def =
     (if retData = JUndefined \<or> retData = JNull then Inl (TypeError env retData)
      else if js_prop retData ''status'' \<noteq> JNum 200
      then Inr (BoomBadRequest
                 (lodash_get retData ''message'' (JStr ''No error message reported!'')))
      else Inr (Data (lodash_get retData ''data'' def)))"

definition setHeader :: "jsval \<Rightarrow> jsval" where
  "setHeader session = JObj [(''headers'', JObj [(''authorization'', session)])]"

subsection \<open>The transport and the promise\<close>

text \<open>
  A call on the client is \<open>get(path, meta)\<close>, \<open>post(path, body, meta)\<close> or
  \<open>put(path, body, meta)\<close>. Awaiting it yields a value, throws a value, or never comes
  back. The client may answer differently from one call to the next, so it reads and
  returns a state of its own.
\<close>

datatype request =
    Get string jsval
  | Post string jsval jsval
  | Put string jsval jsval

datatype transport_result = Returns jsval | Raises jsval | NeverSettles

type_synonym 's client = "request \<Rightarrow> 's \<Rightarrow> transport_result \<times> 's"

datatype outcome = Resolved retval | Rejected retval | Pending

record 's run =
  settled :: outcome
  calls :: "request list"
  transport :: 's

text \<open>
  The handler \<open>catch (ex) { reject(self._returnData(ex)); }\<close>. When \<open>_returnData\<close>
  throws here, the exception leaves the executor, whose own promise nobody reads:
  neither \<open>resolve\<close> nor \<open>reject\<close> is called and the operation's promise stays pending.
\<close>

definition catch_reject :: "env \<Rightarrow> jsval \<Rightarrow> outcome" where
  "catch_reject env ex =
     (case returnData env ex (JObj []) of
        Inl err \<Rightarrow> Pending
      | Inr v \<Rightarrow> Rejected v)"

text \<open>
  The end of every \<open>try\<close> block:
  \<open>const retData = self._returnData(await apiCall); resolve(retData);\<close>
\<close>

definition await_resolve :: "env \<Rightarrow> transport_result \<Rightarrow> outcome" where
  "await_resolve env awaited =
     (case awaited of
        Returns v \<Rightarrow>
          (case returnData env v (JObj []) of
             Inl err \<Rightarrow> catch_reject env err
           | Inr retData \<Rightarrow> Resolved retData)
      | Raises ex \<Rightarrow> catch_reject env ex
      | NeverSettles \<Rightarrow> Pending)"

definition dispatch :: "env \<Rightarrow> 's client \<Rightarrow> request \<Rightarrow> 's \<Rightarrow> 's run" where
  "dispatch env client req s =
     (case client req s of
        (awaited, s') \<Rightarrow>
          \<lparr>settled = await_resolve env awaited, calls = [req], transport = s'\<rparr>)"

definition thrown_before_dispatch :: "env \<Rightarrow> jsval \<Rightarrow> 's \<Rightarrow> 's run" where
  "thrown_before_dispatch env ex s =
     \<lparr>settled = catch_reject env ex, calls = [], transport = s\<rparr>"

subsection \<open>The public operations\<close>

definition findById :: "env \<Rightarrow> 's client \<Rightarrow> jsval \<Rightarrow> jsval \<Rightarrow> 's \<Rightarrow> 's run" where
  "findById env client userId session s =
     (case joi_assert_string env userId of
        Inl ex \<Rightarrow> thrown_before_dispatch env ex s
      | Inr uid \<Rightarrow>
     (case joi_assert_string env session of
        Inl ex \<Rightarrow> thrown_before_dispatch env ex s
      | Inr tok \<Rightarrow>
          dispatch env client (Get (''/admin/users/'' @ uid) (setHeader (JStr tok))) s))"

text \<open>
  \<open>const {userId, ...payload} = params\<close> copies every property of \<open>params\<close> other than
  \<open>userId\<close> into \<open>payload\<close>.
\<close>

definition findByIdAndUpdatePassword ::
  "env \<Rightarrow> 's client \<Rightarrow> jsval \<Rightarrow> jsval \<Rightarrow> 's \<Rightarrow> 's run" where
  "findByIdAndUpdatePassword env client params session s =
     (case joi_assert_object env params of
        Inl ex \<Rightarrow> thrown_before_dispatch env ex s
      | Inr ps \<Rightarrow>
     (case joi_assert_string env (js_prop params ''userId'') of
        Inl ex \<Rightarrow> thrown_before_dispatch env ex s
      | Inr uid \<Rightarrow>
     (case joi_assert_string env (js_prop params ''oldPassword'') of
        Inl ex \<Rightarrow> thrown_before_dispatch env ex s
      | Inr old \<Rightarrow>
     (case joi_assert_string env (js_prop params ''newPassword'') of
        Inl ex \<Rightarrow> thrown_before_dispatch env ex s
      | Inr new \<Rightarrow>
     (case joi_assert_string env session of
        Inl ex \<Rightarrow> thrown_before_dispatch env ex s
      | Inr tok \<Rightarrow>
          (let payload = JObj (filter (\<lambda>kv. fst kv \<noteq> ''userId'') ps)
           in dispatch env client
                (Put (''/admin/users/'' @ uid @ ''/password'') payload (setHeader (JStr tok)))
                s))))))"

definition emailExist :: "env \<Rightarrow> 's client \<Rightarrow> jsval \<Rightarrow> jsval \<Rightarrow> 's \<Rightarrow> 's run" where
  "emailExist env client email session s =
     (case joi_assert_email env email of
        Inl ex \<Rightarrow> thrown_before_dispatch env ex s
      | Inr addr \<Rightarrow>
     (case joi_assert_string env session of
        Inl ex \<Rightarrow> thrown_before_dispatch env ex s
      | Inr tok \<Rightarrow>
          (let payload = JObj [(''email'', JStr addr)]
           in dispatch env client
                (Post ''/admin/users/email/exist'' payload (setHeader (JStr tok))) s)))"

text \<open>One invocation of any of the three operations.\<close>

datatype invocation =
    FindById jsval jsval
  | FindByIdAndUpdatePassword jsval jsval
  | EmailExist jsval jsval

fun invoke :: "env \<Rightarrow> 's client \<Rightarrow> invocation \<Rightarrow> 's \<Rightarrow> 's run" where
  "invoke env client (FindById userId session) s = findById env client userId session s"
| "invoke env client (FindByIdAndUpdatePassword params session) s =
     findByIdAndUpdatePassword env client params session s"
| "invoke env client (EmailExist email session) s = emailExist env client email session s"

subsection \<open>The facet\<close>




subsection \<open>A transport that records\<close>

text \<open>
  A client wrapped so that it writes down, in its own state, every call that is made on
  it, before handing the call to the client it wraps. What it has written down after an
  invocation is what was called, as often as it was called.
\<close>

definition recording :: "'s client \<Rightarrow> (request list \<times> 's) client" where
  "recording client req ls =
     (case client req (snd ls) of
        (awaited, s') \<Rightarrow> (awaited, (fst ls @ [req], s')))"


subsection \<open>Shapes of the arguments\<close>

fun is_string :: "jsval \<Rightarrow> bool" where
  "is_string (JStr s) = True"
| "is_string _ = False"

fun nonempty_string :: "jsval \<Rightarrow> bool" where
  "nonempty_string (JStr s) = (s \<noteq> [])"
| "nonempty_string _ = False"

fun email_string :: "env \<Rightarrow> jsval \<Rightarrow> bool" where
  "email_string env (JStr s) = (s \<noteq> [] \<and> email_format env s)"
| "email_string env _ = False"

fun is_object :: "jsval \<Rightarrow> bool" where
  "is_object (JObj ps) = True"
| "is_object _ = False"

text \<open>The arguments of an invocation pass every assertion of its operation.\<close>

fun validates :: "env \<Rightarrow> invocation \<Rightarrow> bool" where
  "validates env (FindById userId session) =
     (nonempty_string userId \<and> nonempty_string session)"
| "validates env (FindByIdAndUpdatePassword params session) =
     (is_object params \<and> nonempty_string (js_prop params ''userId'') \<and>
      nonempty_string (js_prop params ''oldPassword'') \<and>
      nonempty_string (js_prop params ''newPassword'') \<and> nonempty_string session)"
| "validates env (EmailExist email session) =
     (email_string env email \<and> nonempty_string session)"

text \<open>
  A required argument is missing or of the wrong type: an identifier, a session or an
  e-mail that is not a string, a parameter object that is none, or one whose fields are
  not strings with at least one character.
\<close>

fun malformed :: "invocation \<Rightarrow> bool" where
  "malformed (FindById userId session) = (\<not> is_string userId \<or> \<not> is_string session)"
| "malformed (FindByIdAndUpdatePassword params session) =
     (\<not> is_object params \<or> \<not> nonempty_string (js_prop params ''userId'') \<or>
      \<not> nonempty_string (js_prop params ''oldPassword'') \<or>
      \<not> nonempty_string (js_prop params ''newPassword'') \<or> \<not> is_string session)"
| "malformed (EmailExist email session) = (\<not> is_string email \<or> \<not> is_string session)"

text \<open>
  The awaited result of every call the invocation makes on the client. With \<open>validates\<close>
  there is exactly one such call, so this fixes what the transport did.
\<close>

definition transport_gives ::
  "env \<Rightarrow> 's client \<Rightarrow> invocation \<Rightarrow> 's \<Rightarrow> transport_result \<Rightarrow> bool" where
  "transport_gives env client call s res =
     (\<forall>req \<in> set (calls (invoke env client call s)). fst (client req s) = res)"

text \<open>
  A rejection value that is a plain object with a \<open>status\<close> field and a \<open>message\<close>
  field that is a string. The error that \<open>Boom.badRequest\<close> builds is an \<open>Error\<close>
  instance and has no \<open>status\<close> property (its 400 is at \<open>output.statusCode\<close>).
\<close>

fun status_and_message :: "retval \<Rightarrow> bool" where
  "status_and_message (BoomBadRequest m) = False"
| "status_and_message (Data (JObj ps)) =
     (map_of ps ''status'' \<noteq> None \<and>
      (case map_of ps ''message'' of Some (JStr m) \<Rightarrow> True | _ \<Rightarrow> False))"
| "status_and_message (Data _) = False"

fun is_rejected :: "outcome \<Rightarrow> bool" where
  "is_rejected (Rejected v) = True"
| "is_rejected _ = False"

subsection \<open>Stubs for concrete runs\<close>

definition stub_env :: env where
  "stub_env =
     \<lparr>email_format = (\<lambda>s. CHR ''@'' \<in> set s),
      validation_message = (\<lambda>sch v. ''validation failed''),
      type_error_message = (\<lambda>v. ''cannot read properties'')\<rparr>"

text \<open>A client that gives the same answer to every call and counts the calls.\<close>

definition stub_client :: "transport_result \<Rightarrow> nat client" where
  "stub_client res req n = (res, Suc n)"

section \<open>Properties\<close>

subsection \<open>Auxiliary facts\<close>

lemma joi_assert_string_Inr:
  "nonempty_string v \<Longrightarrow> joi_assert_string env v = Inr (case v of JStr s \<Rightarrow> s | _ \<Rightarrow> [])"
  by (cases v) auto

lemma joi_assert_string_Inl:
  "\<not> nonempty_string v \<Longrightarrow> joi_assert_string env v = Inl (ValidationError env JoiString v)"
  by (cases v) auto

lemma joi_assert_email_Inr:
  "email_string env v \<Longrightarrow> joi_assert_email env v = Inr (case v of JStr s \<Rightarrow> s | _ \<Rightarrow> [])"
  by (cases v) auto

lemma joi_assert_email_Inl:
  "\<not> email_string env v \<Longrightarrow>
   joi_assert_email env v = Inl (ValidationError env JoiStringEmail v)"
  by (cases v) auto

lemma joi_assert_object_Inl:
  "\<not> is_object v \<Longrightarrow> joi_assert_object env v = Inl (ValidationError env JoiObject v)"
  by (cases v) auto

lemma catch_reject_ValidationError:
  "catch_reject env (ValidationError env sch v) =
     Rejected (BoomBadRequest (JStr (validation_message env sch v)))"
  by (simp add: catch_reject_def returnData_def ValidationError_def lodash_get_def)

lemma catch_reject_TypeError:
  "catch_reject env (TypeError env v) =
     Rejected (BoomBadRequest (JStr (type_error_message env v)))"
  by (simp add: catch_reject_def returnData_def TypeError_def lodash_get_def)

lemma dispatch_sel:
  "settled (dispatch env client req s) = await_resolve env (fst (client req s))"
  "calls (dispatch env client req s) = [req]"
  "transport (dispatch env client req s) = snd (client req s)"
  by (simp_all add: dispatch_def split: prod.split)

lemma valid_dispatches:
  assumes "validates env call"
  shows "\<exists>req. invoke env client call s = dispatch env client req s"
proof (cases call)
  case (FindById userId session)
  with assms show ?thesis
    by (auto simp: findById_def joi_assert_string_Inr)
next
  case (FindByIdAndUpdatePassword params session)
  with assms obtain ps where "params = JObj ps"
    by (cases params) auto
  with assms FindByIdAndUpdatePassword show ?thesis
    by (auto simp: findByIdAndUpdatePassword_def joi_assert_string_Inr)
next
  case (EmailExist email session)
  with assms show ?thesis
    by (auto simp: emailExist_def joi_assert_string_Inr joi_assert_email_Inr)
qed

lemma invalid_throws:
  assumes "\<not> validates env call"
  shows "\<exists>sch v. invoke env client call s =
           thrown_before_dispatch env (ValidationError env sch v) s"
proof (cases call)
  case (FindById userId session)
  with assms show ?thesis
    by (cases "nonempty_string userId")
       (auto simp: findById_def joi_assert_string_Inr joi_assert_string_Inl)
next
  case (FindByIdAndUpdatePassword params session)
  show ?thesis
  proof (cases params)
    case (JObj ps)
    with assms FindByIdAndUpdatePassword show ?thesis
      by (cases "nonempty_string (js_prop params ''userId'')";
          cases "nonempty_string (js_prop params ''oldPassword'')";
          cases "nonempty_string (js_prop params ''newPassword'')")
         (auto simp: findByIdAndUpdatePassword_def joi_assert_string_Inr
                     joi_assert_string_Inl)
  qed (use FindByIdAndUpdatePassword in \<open>auto simp: findByIdAndUpdatePassword_def\<close>)
next
  case (EmailExist email session)
  with assms show ?thesis
    by (cases "email_string env email")
       (auto simp: emailExist_def joi_assert_string_Inl joi_assert_email_Inr
                   joi_assert_email_Inl)
qed

lemma valid_settled:
  assumes "validates env call" and "transport_gives env client call s res"
  shows "settled (invoke env client call s) = await_resolve env res"
proof -
  obtain req where r: "invoke env client call s = dispatch env client req s"
    using valid_dispatches [OF assms(1), of client s] by auto
  with assms(2) have "fst (client req s) = res"
    by (simp add: transport_gives_def dispatch_sel)
  with r show ?thesis by (simp add: dispatch_sel)
qed


lemma malformed_not_validates: "malformed call \<Longrightarrow> \<not> validates env call"
proof -
  have str: "nonempty_string v \<Longrightarrow> is_string v" for v
    by (cases v) auto
  have em: "email_string env v \<Longrightarrow> is_string v" for v
    by (cases v) auto
  show "malformed call \<Longrightarrow> \<not> validates env call"
    by (cases call) (auto dest: str em)
qed

lemma thrown_before_dispatch_sel:
  "settled (thrown_before_dispatch env ex s) = catch_reject env ex"
  "calls (thrown_before_dispatch env ex s) = []"
  "transport (thrown_before_dispatch env ex s) = s"
  by (simp_all add: thrown_before_dispatch_def)

text \<open>The request of a valid invocation is fixed by its arguments, whoever the client is.\<close>

lemma valid_dispatches_both:
  assumes "validates env call"
  shows "\<exists>req. invoke env client call s = dispatch env client req s
             \<and> invoke env client' call s' = dispatch env client' req s'"
proof (cases call)
  case (FindById userId session)
  with assms show ?thesis
    by (auto simp: findById_def joi_assert_string_Inr)
next
  case (FindByIdAndUpdatePassword params session)
  with assms obtain ps where "params = JObj ps"
    by (cases params) auto
  with assms FindByIdAndUpdatePassword show ?thesis
    by (auto simp: findByIdAndUpdatePassword_def joi_assert_string_Inr)
next
  case (EmailExist email session)
  with assms show ?thesis
    by (auto simp: emailExist_def joi_assert_string_Inr joi_assert_email_Inr)
qed

lemma invalid_throws_both:
  assumes "\<not> validates env call"
  shows "\<exists>ex. invoke env client call s = thrown_before_dispatch env ex s
            \<and> invoke env client' call s' = thrown_before_dispatch env ex s'"
proof (cases call)
  case (FindById userId session)
  with assms show ?thesis
    by (cases "nonempty_string userId")
       (auto simp: findById_def joi_assert_string_Inr joi_assert_string_Inl)
next
  case (FindByIdAndUpdatePassword params session)
  show ?thesis
  proof (cases params)
    case (JObj ps)
    with assms FindByIdAndUpdatePassword show ?thesis
      by (cases "nonempty_string (js_prop params ''userId'')";
          cases "nonempty_string (js_prop params ''oldPassword'')";
          cases "nonempty_string (js_prop params ''newPassword'')")
         (auto simp: findByIdAndUpdatePassword_def joi_assert_string_Inr
                     joi_assert_string_Inl)
  qed (use FindByIdAndUpdatePassword in \<open>auto simp: findByIdAndUpdatePassword_def\<close>)
next
  case (EmailExist email session)
  with assms show ?thesis
    by (cases "email_string env email")
       (auto simp: emailExist_def joi_assert_string_Inl joi_assert_email_Inr
                   joi_assert_email_Inl)
qed

lemma recording_apply:
  "recording client req (seen, s) = (fst (client req s), (seen @ [req], snd (client req s)))"
  by (simp add: recording_def split: prod.split)

lemma recording_dispatch:
  "transport (dispatch env (recording client) req (seen, s)) =
     (seen @ [req], snd (client req s))"
  "settled (dispatch env (recording client) req (seen, s)) =
     await_resolve env (fst (client req s))"
  by (simp_all add: dispatch_def recording_def split: prod.split)

subsection \<open>Responses with a status other than 200\<close>

text \<open>
  C1, as stated, fails. A response that the transport returns is normalised inside the
  \<open>try\<close> block and its normal form is handed to \<open>resolve\<close>, whatever it is: for a status
  other than 200 the promise is resolved with the bad-request error, not rejected. Here
  \<open>findById('u1', 'token')\<close> meets a client that returns
  \<open>{status: 404, message: 'Not Found'}\<close>.
\<close>

theorem non200_response_is_resolved_counterexample:
  "settled (findById stub_env
              (stub_client (Returns (JObj [(''status'', JNum 404),
                                           (''message'', JStr ''Not Found'')])))
              (JStr ''u1'') (JStr ''token'') 0)
     = Resolved (BoomBadRequest (JStr ''Not Found''))
   \<and> \<not> is_rejected (settled (findById stub_env
              (stub_client (Returns (JObj [(''status'', JNum 404),
                                           (''message'', JStr ''Not Found'')])))
              (JStr ''u1'') (JStr ''token'') 0))"
  by (simp add: findById_def dispatch_def stub_client_def await_resolve_def
        returnData_def lodash_get_def)

text \<open>
  C1, amended. For every operation whose arguments pass validation: when the transport
  call returns (without raising) a response whose status is not 200, the promise is
  resolved with the bad-request error built from the response's \<open>message\<close> field,
  verbatim, or from the placeholder text when the response has no such field.
\<close>

theorem non200_response_resolves_with_bad_request:
  assumes "validates env call"
    and "transport_gives env client call s (Returns r)"
    and "r \<noteq> JUndefined" and "r \<noteq> JNull"
    and "js_prop r ''status'' \<noteq> JNum 200"
  shows "settled (invoke env client call s) =
           Resolved (BoomBadRequest
             (if js_prop r ''message'' = JUndefined then JStr ''No error message reported!''
              else js_prop r ''message''))"
proof -
  have "settled (invoke env client call s) = await_resolve env (Returns r)"
    using assms(1,2) by (rule valid_settled)
  also have "\<dots> = Resolved (BoomBadRequest
             (lodash_get r ''message'' (JStr ''No error message reported!'')))"
    using assms(3-5) by (simp add: await_resolve_def returnData_def)
  finally show ?thesis
    using assms(3,4) by (simp add: lodash_get_def)
qed

theorem non200_response_resolves_with_bad_request_witness:
  "validates stub_env (EmailExist (JStr ''ana@x.com'') (JStr ''token''))
   \<and> transport_gives stub_env
        (stub_client (Returns (JObj [(''status'', JNum 500), (''message'', JStr ''down'')])))
        (EmailExist (JStr ''ana@x.com'') (JStr ''token'')) 0
        (Returns (JObj [(''status'', JNum 500), (''message'', JStr ''down'')]))
   \<and> js_prop (JObj [(''status'', JNum 500), (''message'', JStr ''down'')]) ''status''
        \<noteq> JNum 200
   \<and> settled (invoke stub_env
        (stub_client (Returns (JObj [(''status'', JNum 500), (''message'', JStr ''down'')])))
        (EmailExist (JStr ''ana@x.com'') (JStr ''token'')) 0)
      = Resolved (BoomBadRequest (JStr ''down''))"
proof -
  let ?r = "JObj [(''status'', JNum 500), (''message'', JStr ''down'')]"
  let ?c = "EmailExist (JStr ''ana@x.com'') (JStr ''token'')"
  have v: "validates stub_env ?c"
    by (simp add: stub_env_def)
  have t: "transport_gives stub_env (stub_client (Returns ?r)) ?c 0 (Returns ?r)"
    by (simp add: transport_gives_def stub_client_def)
  have n: "js_prop ?r ''status'' \<noteq> JNum 200"
    by simp
  from non200_response_resolves_with_bad_request [OF v t _ _ n]
  have "settled (invoke stub_env (stub_client (Returns ?r)) ?c 0)
          = Resolved (BoomBadRequest (JStr ''down''))"
    by simp
  with v t n show ?thesis by blast
qed

text \<open>
  C4. For every operation whose arguments pass validation: when the transport result,
  returned or raised, has a status other than 200 and no \<open>message\<close> field, the error the
  promise settles with carries exactly the message \<open>No error message reported!\<close>.
\<close>

theorem missing_message_gives_placeholder:
  assumes "validates env call"
    and "js_prop (JObj ps) ''status'' \<noteq> JNum 200"
    and "map_of ps ''message'' = None"
  shows "(transport_gives env client call s (Returns (JObj ps)) \<longrightarrow>
            settled (invoke env client call s) =
              Resolved (BoomBadRequest (JStr ''No error message reported!'')))
       \<and> (transport_gives env client call s (Raises (JObj ps)) \<longrightarrow>
            settled (invoke env client call s) =
              Rejected (BoomBadRequest (JStr ''No error message reported!'')))"
proof -
  have "returnData env (JObj ps) (JObj []) =
          Inr (BoomBadRequest (JStr ''No error message reported!''))"
    using assms(2,3) by (simp add: returnData_def lodash_get_def)
  then have "await_resolve env (Returns (JObj ps)) =
               Resolved (BoomBadRequest (JStr ''No error message reported!''))"
    and "await_resolve env (Raises (JObj ps)) =
               Rejected (BoomBadRequest (JStr ''No error message reported!''))"
    by (simp_all add: await_resolve_def catch_reject_def)
  then show ?thesis
    using valid_settled [OF assms(1)] by metis
qed

theorem missing_message_gives_placeholder_witness:
  "validates stub_env (FindById (JStr ''u1'') (JStr ''token''))
   \<and> js_prop (JObj [(''status'', JNum 503)]) ''status'' \<noteq> JNum 200
   \<and> map_of [(''status'', JNum 503)] ''message'' = None
   \<and> transport_gives stub_env (stub_client (Raises (JObj [(''status'', JNum 503)])))
        (FindById (JStr ''u1'') (JStr ''token'')) 0 (Raises (JObj [(''status'', JNum 503)]))
   \<and> settled (invoke stub_env (stub_client (Raises (JObj [(''status'', JNum 503)])))
        (FindById (JStr ''u1'') (JStr ''token'')) 0)
      = Rejected (BoomBadRequest (JStr ''No error message reported!''))"
proof -
  let ?ps = "[(''status'', JNum 503)]"
  let ?c = "FindById (JStr ''u1'') (JStr ''token'')"
  have v: "validates stub_env ?c"
    by simp
  have n: "js_prop (JObj ?ps) ''status'' \<noteq> JNum 200"
    by simp
  have m: "map_of ?ps ''message'' = None"
    by simp
  have t: "transport_gives stub_env (stub_client (Raises (JObj ?ps))) ?c 0
             (Raises (JObj ?ps))"
    by (simp add: transport_gives_def stub_client_def)
  from missing_message_gives_placeholder [OF v n m, of "stub_client (Raises (JObj ?ps))" 0] t
  have "settled (invoke stub_env (stub_client (Raises (JObj ?ps))) ?c 0)
          = Rejected (BoomBadRequest (JStr ''No error message reported!''))"
    by blast
  with v n m t show ?thesis by blast
qed

subsection \<open>Responses with status 200\<close>

text \<open>
  C2. For every operation whose arguments pass validation: when the transport call
  returns a response with status exactly 200 whose \<open>data\<close> field holds a value \<open>X\<close>, the
  promise is resolved with exactly \<open>X\<close>; when the response has status 200 and no \<open>data\<close>
  field, it is resolved with the empty object. (A value is what a response body can
  hold; \<open>undefined\<close> is the absence of one, and lodash reads it so.)
\<close>

theorem ok_response_resolves_with_data:
  assumes "validates env call"
    and "transport_gives env client call s (Returns (JObj ps))"
    and "map_of ps ''status'' = Some (JNum 200)"
  shows "(\<forall>X. map_of ps ''data'' = Some X \<and> X \<noteq> JUndefined \<longrightarrow>
            settled (invoke env client call s) = Resolved (Data X))
       \<and> (map_of ps ''data'' = None \<longrightarrow>
            settled (invoke env client call s) = Resolved (Data (JObj [])))"
proof -
  have "settled (invoke env client call s) = await_resolve env (Returns (JObj ps))"
    using assms(1,2) by (rule valid_settled)
  also have "\<dots> = Resolved (Data (lodash_get (JObj ps) ''data'' (JObj [])))"
    using assms(3) by (simp add: await_resolve_def returnData_def)
  finally show ?thesis
    by (auto simp: lodash_get_def)
qed

theorem ok_response_resolves_with_data_witness:
  "validates stub_env (FindById (JStr ''55e4a3bd6be6b45210833fae'') (JStr ''token''))
   \<and> transport_gives stub_env
        (stub_client (Returns (JObj [(''status'', JNum 200),
           (''data'', JObj [(''_id'', JStr ''55e4a3bd6be6b45210833fae''),
                            (''email'', JStr ''ana@x.com'')])])))
        (FindById (JStr ''55e4a3bd6be6b45210833fae'') (JStr ''token'')) 0
        (Returns (JObj [(''status'', JNum 200),
           (''data'', JObj [(''_id'', JStr ''55e4a3bd6be6b45210833fae''),
                            (''email'', JStr ''ana@x.com'')])]))
   \<and> settled (invoke stub_env
        (stub_client (Returns (JObj [(''status'', JNum 200),
           (''data'', JObj [(''_id'', JStr ''55e4a3bd6be6b45210833fae''),
                            (''email'', JStr ''ana@x.com'')])])))
        (FindById (JStr ''55e4a3bd6be6b45210833fae'') (JStr ''token'')) 0)
      = Resolved (Data (JObj [(''_id'', JStr ''55e4a3bd6be6b45210833fae''),
                              (''email'', JStr ''ana@x.com'')]))
   \<and> transport_gives stub_env (stub_client (Returns (JObj [(''status'', JNum 200)])))
        (FindById (JStr ''55e4a3bd6be6b45210833fae'') (JStr ''token'')) 0
        (Returns (JObj [(''status'', JNum 200)]))
   \<and> settled (invoke stub_env (stub_client (Returns (JObj [(''status'', JNum 200)])))
        (FindById (JStr ''55e4a3bd6be6b45210833fae'') (JStr ''token'')) 0)
      = Resolved (Data (JObj []))"
proof -
  let ?X = "JObj [(''_id'', JStr ''55e4a3bd6be6b45210833fae''), (''email'', JStr ''ana@x.com'')]"
  let ?ps = "[(''status'', JNum 200), (''data'', ?X)]"
  let ?qs = "[(''status'', JNum 200)]"
  let ?c = "FindById (JStr ''55e4a3bd6be6b45210833fae'') (JStr ''token'')"
  have v: "validates stub_env ?c"
    by simp
  have t1: "transport_gives stub_env (stub_client (Returns (JObj ?ps))) ?c 0
              (Returns (JObj ?ps))"
    by (simp add: transport_gives_def stub_client_def)
  have t2: "transport_gives stub_env (stub_client (Returns (JObj ?qs))) ?c 0
              (Returns (JObj ?qs))"
    by (simp add: transport_gives_def stub_client_def)
  have s1: "map_of ?ps ''status'' = Some (JNum 200)" and d1: "map_of ?ps ''data'' = Some ?X"
    and s2: "map_of ?qs ''status'' = Some (JNum 200)" and d2: "map_of ?qs ''data'' = None"
    by simp_all
  from ok_response_resolves_with_data [OF v t1 s1] d1
  have r1: "settled (invoke stub_env (stub_client (Returns (JObj ?ps))) ?c 0)
              = Resolved (Data ?X)"
    by blast
  from ok_response_resolves_with_data [OF v t2 s2] d2
  have r2: "settled (invoke stub_env (stub_client (Returns (JObj ?qs))) ?c 0)
              = Resolved (Data (JObj []))"
    by blast
  from v t1 r1 t2 r2 show ?thesis by blast
qed


subsection \<open>Validation comes before the dispatch\<close>

text \<open>
  C3. For every operation: when a required argument is missing or of the wrong type
  (an identifier, a session or an e-mail that is not a string, a parameter object whose
  fields are not strings with at least one character), the promise is rejected with the
  bad-request error that carries the validator's message, and the client is not called:
  the list of calls is empty and the transport is in the state it was in.
\<close>

theorem malformed_rejected_before_dispatch:
  assumes "malformed call"
  shows "calls (invoke env client call s) = []
       \<and> transport (invoke env client call s) = s
       \<and> (\<exists>sch v. settled (invoke env client call s) =
                     Rejected (BoomBadRequest (JStr (validation_message env sch v))))"
proof -
  from assms have "\<not> validates env call"
    by (rule malformed_not_validates)
  from invalid_throws [OF this, of client s] obtain sch v where
    "invoke env client call s = thrown_before_dispatch env (ValidationError env sch v) s"
    by auto
  then show ?thesis
    by (auto simp: thrown_before_dispatch_sel catch_reject_ValidationError)
qed

theorem malformed_rejected_before_dispatch_witness:
  "malformed (FindByIdAndUpdatePassword
                (JObj [(''userId'', JStr ''u1''), (''oldPassword'', JNum 7)]) (JStr ''token''))
   \<and> calls (invoke stub_env (stub_client (Returns (JObj [(''status'', JNum 200)])))
        (FindByIdAndUpdatePassword
           (JObj [(''userId'', JStr ''u1''), (''oldPassword'', JNum 7)]) (JStr ''token''))
        0) = []
   \<and> settled (invoke stub_env (stub_client (Returns (JObj [(''status'', JNum 200)])))
        (FindByIdAndUpdatePassword
           (JObj [(''userId'', JStr ''u1''), (''oldPassword'', JNum 7)]) (JStr ''token''))
        0) = Rejected (BoomBadRequest (JStr ''validation failed''))"
proof -
  let ?c = "FindByIdAndUpdatePassword
              (JObj [(''userId'', JStr ''u1''), (''oldPassword'', JNum 7)]) (JStr ''token'')"
  have m: "malformed ?c"
    by simp
  from malformed_rejected_before_dispatch [OF m, of stub_env
         "stub_client (Returns (JObj [(''status'', JNum 200)]))" 0]
  have "calls (invoke stub_env (stub_client (Returns (JObj [(''status'', JNum 200)]))) ?c 0)
          = []"
    and "settled (invoke stub_env (stub_client (Returns (JObj [(''status'', JNum 200)]))) ?c 0)
          = Rejected (BoomBadRequest (JStr ''validation failed''))"
    by (auto simp: stub_env_def)
  with m show ?thesis by blast
qed

text \<open>
  C6. For every string that is not in e-mail format, \<open>emailExist\<close> rejects with the
  bad-request error that carries the validator's message for that string, and makes no
  call on the client.
\<close>

theorem bad_email_rejected_before_dispatch:
  assumes "\<not> email_format env e"
  shows "emailExist env client (JStr e) session s =
           \<lparr>settled = Rejected (BoomBadRequest
                         (JStr (validation_message env JoiStringEmail (JStr e)))),
            calls = [], transport = s\<rparr>"
  using assms
  by (simp add: emailExist_def thrown_before_dispatch_def catch_reject_ValidationError)

theorem bad_email_rejected_before_dispatch_witness:
  "\<not> email_format stub_env ''not-an-email''
   \<and> emailExist stub_env (stub_client (Returns (JObj [(''status'', JNum 200)])))
        (JStr ''not-an-email'') (JStr ''token'') 0 =
        \<lparr>settled = Rejected (BoomBadRequest (JStr ''validation failed'')),
         calls = [], transport = 0\<rparr>"
proof -
  have h: "\<not> email_format stub_env ''not-an-email''"
    by (simp add: stub_env_def)
  from bad_email_rejected_before_dispatch [OF h, of
         "stub_client (Returns (JObj [(''status'', JNum 200)]))" "JStr ''token''" 0]
  have "emailExist stub_env (stub_client (Returns (JObj [(''status'', JNum 200)])))
          (JStr ''not-an-email'') (JStr ''token'') 0 =
          \<lparr>settled = Rejected (BoomBadRequest (JStr ''validation failed'')),
           calls = [], transport = 0\<rparr>"
    by (simp add: stub_env_def)
  with h show ?thesis by blast
qed

subsection \<open>The password update\<close>

text \<open>
  C5. For every parameter object with the fields \<open>userId\<close>, \<open>oldPassword\<close> and
  \<open>newPassword\<close> (each once, each a string with at least one character, and no other
  field) and every session string, \<open>findByIdAndUpdatePassword\<close> makes exactly one call,
  a \<open>PUT\<close> to \<open>/admin/users/\<close> + userId + \<open>/password\<close>; the body of the call has two
  fields, \<open>oldPassword\<close> and \<open>newPassword\<close>, with the values they have in the
  parameters, and no \<open>userId\<close>. That request is what a recording client has written
  down, once; the transport is left as the client leaves it after that request, and the
  promise settles from the client's answer to it.
\<close>

theorem update_password_issues_one_put:
  assumes "distinct (map fst ps)"
    and "set (map fst ps) = {''userId'', ''oldPassword'', ''newPassword''}"
    and "map_of ps ''userId'' = Some (JStr uid)" and "uid \<noteq> []"
    and "map_of ps ''oldPassword'' = Some (JStr old)" and "old \<noteq> []"
    and "map_of ps ''newPassword'' = Some (JStr new)" and "new \<noteq> []"
    and "tok \<noteq> []"
  shows "\<exists>body req.
           req = Put (''/admin/users/'' @ uid @ ''/password'') (JObj body)
                     (JObj [(''headers'', JObj [(''authorization'', JStr tok)])])
         \<and> calls (findByIdAndUpdatePassword env client (JObj ps) (JStr tok) s) = [req]
         \<and> fst (transport (findByIdAndUpdatePassword env (recording client)
                              (JObj ps) (JStr tok) ([], s))) = [req]
         \<and> transport (findByIdAndUpdatePassword env client (JObj ps) (JStr tok) s)
             = snd (client req s)
         \<and> settled (findByIdAndUpdatePassword env client (JObj ps) (JStr tok) s)
             = await_resolve env (fst (client req s))
         \<and> map_of body = [''oldPassword'' \<mapsto> JStr old, ''newPassword'' \<mapsto> JStr new]
         \<and> map_of body ''userId'' = None
         \<and> length body = 2"
proof -
  let ?body = "filter (\<lambda>kv. fst kv \<noteq> ''userId'') ps"
  let ?req = "Put (''/admin/users/'' @ uid @ ''/password'') (JObj ?body)
                  (JObj [(''headers'', JObj [(''authorization'', JStr tok)])])"
  have run: "findByIdAndUpdatePassword env client (JObj ps) (JStr tok) s =
               dispatch env client ?req s"
    using assms(3-9) by (simp add: findByIdAndUpdatePassword_def setHeader_def)
  have rec: "findByIdAndUpdatePassword env (recording client) (JObj ps) (JStr tok) ([], s) =
               dispatch env (recording client) ?req ([], s)"
    using assms(3-9) by (simp add: findByIdAndUpdatePassword_def setHeader_def)
  have look: "map_of ?body k = (if k = ''userId'' then None else map_of ps k)" for k
    by (induction ps) auto
  have dom: "dom (map_of ps) = {''userId'', ''oldPassword'', ''newPassword''}"
    using assms(2) by (simp add: dom_map_of_conv_image_fst)
  have m: "map_of ?body = [''oldPassword'' \<mapsto> JStr old, ''newPassword'' \<mapsto> JStr new]"
  proof
    fix k
    show "map_of ?body k = [''oldPassword'' \<mapsto> JStr old, ''newPassword'' \<mapsto> JStr new] k"
    proof (cases "k \<in> {''userId'', ''oldPassword'', ''newPassword''}")
      case True
      then show ?thesis
        using assms(5,7) by (auto simp: look)
    next
      case False
      then have "map_of ps k = None"
        using dom by blast
      with False show ?thesis
        by (simp add: look)
    qed
  qed
  have keys: "map fst ?body = filter (\<lambda>k. k \<noteq> ''userId'') (map fst ps)"
    by (simp add: filter_map comp_def)
  have "distinct (map fst ?body)"
    unfolding keys using assms(1) by simp
  moreover have "set (map fst ?body) = {''oldPassword'', ''newPassword''}"
    unfolding keys using assms(2) by auto
  ultimately have "length (map fst ?body) = card {''oldPassword'', ''newPassword''}"
    using distinct_card by metis
  then have len: "length ?body = 2"
    by simp
  have "calls (findByIdAndUpdatePassword env client (JObj ps) (JStr tok) s) = [?req]"
    and "fst (transport (findByIdAndUpdatePassword env (recording client)
                           (JObj ps) (JStr tok) ([], s))) = [?req]"
    and "transport (findByIdAndUpdatePassword env client (JObj ps) (JStr tok) s)
           = snd (client ?req s)"
    and "settled (findByIdAndUpdatePassword env client (JObj ps) (JStr tok) s)
           = await_resolve env (fst (client ?req s))"
    unfolding run rec by (simp_all add: dispatch_sel recording_apply)
  with m len show ?thesis
    by (intro exI [of _ ?body] exI [of _ ?req]) (simp add: look)
qed

theorem update_password_issues_one_put_witness:
  "distinct (map fst [(''userId'', JStr ''u1''), (''oldPassword'', JStr ''a''),
                      (''newPassword'', JStr ''b'')])
   \<and> set (map fst [(''userId'', JStr ''u1''), (''oldPassword'', JStr ''a''),
                    (''newPassword'', JStr ''b'')])
       = {''userId'', ''oldPassword'', ''newPassword''}
   \<and> (\<exists>body.
         calls (findByIdAndUpdatePassword stub_env
                  (stub_client (Returns (JObj [(''status'', JNum 200)])))
                  (JObj [(''userId'', JStr ''u1''), (''oldPassword'', JStr ''a''),
                         (''newPassword'', JStr ''b'')])
                  (JStr ''token'') 0) =
           [Put ''/admin/users/u1/password'' (JObj body)
                (JObj [(''headers'', JObj [(''authorization'', JStr ''token'')])])]
       \<and> fst (transport (findByIdAndUpdatePassword stub_env
                  (recording (stub_client (Returns (JObj [(''status'', JNum 200)]))))
                  (JObj [(''userId'', JStr ''u1''), (''oldPassword'', JStr ''a''),
                         (''newPassword'', JStr ''b'')])
                  (JStr ''token'') ([], 0))) =
           [Put ''/admin/users/u1/password'' (JObj body)
                (JObj [(''headers'', JObj [(''authorization'', JStr ''token'')])])]
       \<and> transport (findByIdAndUpdatePassword stub_env
                  (stub_client (Returns (JObj [(''status'', JNum 200)])))
                  (JObj [(''userId'', JStr ''u1''), (''oldPassword'', JStr ''a''),
                         (''newPassword'', JStr ''b'')])
                  (JStr ''token'') 0) = 1
       \<and> settled (findByIdAndUpdatePassword stub_env
                  (stub_client (Returns (JObj [(''status'', JNum 200)])))
                  (JObj [(''userId'', JStr ''u1''), (''oldPassword'', JStr ''a''),
                         (''newPassword'', JStr ''b'')])
                  (JStr ''token'') 0) = Resolved (Data (JObj []))
       \<and> map_of body = [''oldPassword'' \<mapsto> JStr ''a'', ''newPassword'' \<mapsto> JStr ''b'']
       \<and> map_of body ''userId'' = None
       \<and> length body = 2)"
proof -
  let ?ps = "[(''userId'', JStr ''u1''), (''oldPassword'', JStr ''a''),
              (''newPassword'', JStr ''b'')]"
  let ?cl = "stub_client (Returns (JObj [(''status'', JNum 200)]))"
  have d: "distinct (map fst ?ps)"
    by simp
  have k: "set (map fst ?ps) = {''userId'', ''oldPassword'', ''newPassword''}"
    by simp
  have u: "map_of ?ps ''userId'' = Some (JStr ''u1'')"
    and o: "map_of ?ps ''oldPassword'' = Some (JStr ''a'')"
    and n: "map_of ?ps ''newPassword'' = Some (JStr ''b'')"
    by simp_all
  have ne: "''u1'' \<noteq> []" "''a'' \<noteq> []" "''b'' \<noteq> []" "''token'' \<noteq> []"
    by simp_all
  have ans: "snd (?cl req 0) = 1"
    "await_resolve stub_env (fst (?cl req 0)) = Resolved (Data (JObj []))" for req
    by (simp_all add: stub_client_def await_resolve_def returnData_def lodash_get_def)
  from update_password_issues_one_put [OF d k u ne(1) o ne(2) n ne(3) ne(4), of stub_env ?cl 0]
  obtain body req where
    f1: "req = Put ''/admin/users/u1/password'' (JObj body)
             (JObj [(''headers'', JObj [(''authorization'', JStr ''token'')])])"
    and f2: "calls (findByIdAndUpdatePassword stub_env ?cl (JObj ?ps) (JStr ''token'') 0)
               = [req]"
    and f3: "fst (transport (findByIdAndUpdatePassword stub_env (recording ?cl)
                       (JObj ?ps) (JStr ''token'') ([], 0))) = [req]"
    and f4: "transport (findByIdAndUpdatePassword stub_env ?cl (JObj ?ps) (JStr ''token'') 0)
               = snd (?cl req 0)"
    and f5: "settled (findByIdAndUpdatePassword stub_env ?cl (JObj ?ps) (JStr ''token'') 0)
               = await_resolve stub_env (fst (?cl req 0))"
    and f6: "map_of body = [''oldPassword'' \<mapsto> JStr ''a'', ''newPassword'' \<mapsto> JStr ''b'']"
    and f7: "map_of body ''userId'' = None"
    and f8: "length body = 2"
    by auto
  have c3: "transport (findByIdAndUpdatePassword stub_env ?cl (JObj ?ps) (JStr ''token'') 0)
              = 1"
    using f4 by (simp only: ans)
  have c4: "settled (findByIdAndUpdatePassword stub_env ?cl (JObj ?ps) (JStr ''token'') 0)
              = Resolved (Data (JObj []))"
    using f5 by (simp only: ans)
  from f2 f3 c3 c4 f6 f7 f8 have "\<exists>body.
         calls (findByIdAndUpdatePassword stub_env ?cl (JObj ?ps) (JStr ''token'') 0) =
           [Put ''/admin/users/u1/password'' (JObj body)
                (JObj [(''headers'', JObj [(''authorization'', JStr ''token'')])])]
       \<and> fst (transport (findByIdAndUpdatePassword stub_env (recording ?cl)
                            (JObj ?ps) (JStr ''token'') ([], 0))) =
           [Put ''/admin/users/u1/password'' (JObj body)
                (JObj [(''headers'', JObj [(''authorization'', JStr ''token'')])])]
       \<and> transport (findByIdAndUpdatePassword stub_env ?cl (JObj ?ps) (JStr ''token'') 0) = 1
       \<and> settled (findByIdAndUpdatePassword stub_env ?cl (JObj ?ps) (JStr ''token'') 0)
           = Resolved (Data (JObj []))
       \<and> map_of body = [''oldPassword'' \<mapsto> JStr ''a'', ''newPassword'' \<mapsto> JStr ''b'']
       \<and> map_of body ''userId'' = None
       \<and> length body = 2"
    unfolding f1 by blast
  with d k show ?thesis by blast
qed

text \<open>
  The parameter object is not held to these three fields: whatever else it carries
  travels in the body, and only \<open>userId\<close> is taken out.
\<close>

lemma update_password_body_is_rest:
  assumes "validates env (FindByIdAndUpdatePassword (JObj ps) session)"
  shows "\<exists>path meta.
           calls (findByIdAndUpdatePassword env client (JObj ps) session s) =
             [Put path (JObj (filter (\<lambda>kv. fst kv \<noteq> ''userId'') ps)) meta]"
  using assms
  by (simp add: findByIdAndUpdatePassword_def joi_assert_string_Inr dispatch_sel)

subsection \<open>One call on the client, at most\<close>

text \<open>
  C8. For every operation, every input and every client, however the client answers:
  the invocation makes at most one call on the client; it makes exactly one when the
  arguments pass validation and none otherwise. A response with a status other than 200
  and a raised exception are answers like any other, and no second call follows them.
  The calls are counted by a recording client, and the one call is the only time the
  client is applied: the transport is left as the client leaves it after that one
  request and the promise settles from the answer to it; with no call, the transport
  is as it was.
\<close>

theorem at_most_one_dispatch:
  "length (calls (invoke env client call s)) \<le> 1
   \<and> length (fst (transport (invoke env (recording client) call ([], s)))) \<le> 1
   \<and> (validates env call \<longrightarrow>
        length (calls (invoke env client call s)) = 1
        \<and> (\<exists>req. calls (invoke env client call s) = [req]
               \<and> transport (invoke env (recording client) call ([], s))
                   = ([req], snd (client req s))
               \<and> settled (invoke env (recording client) call ([], s))
                   = await_resolve env (fst (client req s))
               \<and> transport (invoke env client call s) = snd (client req s)
               \<and> settled (invoke env client call s) = await_resolve env (fst (client req s))))
   \<and> (\<not> validates env call \<longrightarrow>
        calls (invoke env client call s) = []
        \<and> transport (invoke env (recording client) call ([], s)) = ([], s)
        \<and> transport (invoke env client call s) = s)"
proof (cases "validates env call")
  case True
  from valid_dispatches_both [OF this, of client s "recording client" "([], s)"]
  obtain req where
    "invoke env client call s = dispatch env client req s"
    "invoke env (recording client) call ([], s) = dispatch env (recording client) req ([], s)"
    by auto
  with True show ?thesis
    by (simp add: dispatch_sel recording_apply)
next
  case False
  from invalid_throws_both [OF this, of client s "recording client" "([], s)"]
  obtain ex where
    "invoke env client call s = thrown_before_dispatch env ex s"
    "invoke env (recording client) call ([], s) = thrown_before_dispatch env ex ([], s)"
    by auto
  with False show ?thesis
    by (simp add: thrown_before_dispatch_sel)
qed

theorem at_most_one_dispatch_witness:
  "validates stub_env (FindById (JStr ''u1'') (JStr ''token''))
   \<and> length (calls (invoke stub_env
                (stub_client (Raises (JObj [(''status'', JNum 500)])))
                (FindById (JStr ''u1'') (JStr ''token'')) 0)) = 1
   \<and> transport (invoke stub_env
                (recording (stub_client (Raises (JObj [(''status'', JNum 500)]))))
                (FindById (JStr ''u1'') (JStr ''token'')) ([], 0))
       = ([Get ''/admin/users/u1''
             (JObj [(''headers'', JObj [(''authorization'', JStr ''token'')])])], 1)
   \<and> transport (invoke stub_env
                (stub_client (Raises (JObj [(''status'', JNum 500)])))
                (FindById (JStr ''u1'') (JStr ''token'')) 0) = 1
   \<and> \<not> validates stub_env (EmailExist (JStr ''not-an-email'') (JStr ''token''))
   \<and> calls (invoke stub_env
                (stub_client (Raises (JObj [(''status'', JNum 500)])))
                (EmailExist (JStr ''not-an-email'') (JStr ''token'')) 0) = []
   \<and> transport (invoke stub_env
                (recording (stub_client (Raises (JObj [(''status'', JNum 500)]))))
                (EmailExist (JStr ''not-an-email'') (JStr ''token'')) ([], 0)) = ([], 0)"
proof -
  let ?cl = "stub_client (Raises (JObj [(''status'', JNum 500)]))"
  let ?get = "Get ''/admin/users/u1''
                (JObj [(''headers'', JObj [(''authorization'', JStr ''token'')])])"
  have v: "validates stub_env (FindById (JStr ''u1'') (JStr ''token''))"
    by simp
  have w: "\<not> validates stub_env (EmailExist (JStr ''not-an-email'') (JStr ''token''))"
    by (simp add: stub_env_def)
  have c: "calls (invoke stub_env ?cl (FindById (JStr ''u1'') (JStr ''token'')) 0) = [?get]"
    by (simp add: findById_def dispatch_sel setHeader_def)
  have ans: "snd (?cl req 0) = 1" for req
    by (simp add: stub_client_def)
  from v at_most_one_dispatch [of stub_env ?cl "FindById (JStr ''u1'') (JStr ''token'')" 0]
  obtain req where
    a: "length (calls (invoke stub_env ?cl (FindById (JStr ''u1'') (JStr ''token'')) 0)) = 1"
    and r: "calls (invoke stub_env ?cl (FindById (JStr ''u1'') (JStr ''token'')) 0) = [req]"
    and t: "transport (invoke stub_env (recording ?cl)
                         (FindById (JStr ''u1'') (JStr ''token'')) ([], 0))
              = ([req], snd (?cl req 0))"
    and u: "transport (invoke stub_env ?cl (FindById (JStr ''u1'') (JStr ''token'')) 0)
              = snd (?cl req 0)"
    by blast
  from c r have "req = ?get"
    by simp
  with t u have t': "transport (invoke stub_env (recording ?cl)
                         (FindById (JStr ''u1'') (JStr ''token'')) ([], 0)) = ([?get], 1)"
    and u': "transport (invoke stub_env ?cl (FindById (JStr ''u1'') (JStr ''token'')) 0) = 1"
    by (simp_all only: ans)
  from w at_most_one_dispatch [of stub_env ?cl
         "EmailExist (JStr ''not-an-email'') (JStr ''token'')" 0]
  have b: "calls (invoke stub_env ?cl (EmailExist (JStr ''not-an-email'') (JStr ''token'')) 0)
             = []"
    and b': "transport (invoke stub_env (recording ?cl)
               (EmailExist (JStr ''not-an-email'') (JStr ''token'')) ([], 0)) = ([], 0)"
    by blast+
  from v a t' u' w b b' show ?thesis by blast
qed

subsection \<open>Reading twice\<close>



subsection \<open>What a rejection carries\<close>

text \<open>
  C10. For every operation whose arguments pass validation: when the transport call
  raises a value whose \<open>status\<close> field is 200, the promise is rejected with that value's
  \<open>data\<close> field, or with the empty object when it has none, and not with a bad-request
  error: the handler passes what it caught through \<open>_returnData\<close>, as the \<open>try\<close> block
  does with a response.
\<close>

theorem raised_status_200_rejects_with_data:
  assumes "validates env call"
    and "transport_gives env client call s (Raises ex)"
    and "js_prop ex ''status'' = JNum 200"
  shows "settled (invoke env client call s) =
           Rejected (Data (if js_prop ex ''data'' = JUndefined then JObj []
                           else js_prop ex ''data''))
       \<and> (\<forall>m. settled (invoke env client call s) \<noteq> Rejected (BoomBadRequest m))"
proof -
  from assms(3) have obj: "ex \<noteq> JUndefined" "ex \<noteq> JNull"
    by auto
  have "settled (invoke env client call s) = await_resolve env (Raises ex)"
    using assms(1,2) by (rule valid_settled)
  also have "\<dots> = Rejected (Data (lodash_get ex ''data'' (JObj [])))"
    using assms(3) obj by (simp add: await_resolve_def catch_reject_def returnData_def)
  finally show ?thesis
    using obj by (simp add: lodash_get_def)
qed

theorem raised_status_200_rejects_with_data_witness:
  "validates stub_env
     (FindByIdAndUpdatePassword
        (JObj [(''userId'', JStr ''u1''), (''oldPassword'', JStr ''a''),
               (''newPassword'', JStr ''b'')]) (JStr ''token''))
   \<and> transport_gives stub_env
        (stub_client (Raises (JObj [(''status'', JNum 200), (''data'', JBool True)])))
        (FindByIdAndUpdatePassword
           (JObj [(''userId'', JStr ''u1''), (''oldPassword'', JStr ''a''),
                  (''newPassword'', JStr ''b'')]) (JStr ''token''))
        0 (Raises (JObj [(''status'', JNum 200), (''data'', JBool True)]))
   \<and> js_prop (JObj [(''status'', JNum 200), (''data'', JBool True)]) ''status'' = JNum 200
   \<and> settled (invoke stub_env
        (stub_client (Raises (JObj [(''status'', JNum 200), (''data'', JBool True)])))
        (FindByIdAndUpdatePassword
           (JObj [(''userId'', JStr ''u1''), (''oldPassword'', JStr ''a''),
                  (''newPassword'', JStr ''b'')]) (JStr ''token''))
        0) = Rejected (Data (JBool True))"
proof -
  let ?ex = "JObj [(''status'', JNum 200), (''data'', JBool True)]"
  let ?c = "FindByIdAndUpdatePassword
              (JObj [(''userId'', JStr ''u1''), (''oldPassword'', JStr ''a''),
                     (''newPassword'', JStr ''b'')]) (JStr ''token'')"
  have v: "validates stub_env ?c"
    by simp
  have t: "transport_gives stub_env (stub_client (Raises ?ex)) ?c 0 (Raises ?ex)"
    by (simp add: transport_gives_def findByIdAndUpdatePassword_def dispatch_sel
          stub_client_def)
  have st: "js_prop ?ex ''status'' = JNum 200"
    by simp
  from raised_status_200_rejects_with_data [OF v t st]
  have "settled (invoke stub_env (stub_client (Raises ?ex)) ?c 0) = Rejected (Data (JBool True))"
    by simp
  with v t st show ?thesis by blast
qed

text \<open>
  C7, as stated, fails. \<open>findById('u1', 'token')\<close> meets a client that raises
  \<open>{status: 200, data: 42}\<close>: the promise is rejected with the number 42, which is no
  object and has neither a status nor a message.
\<close>

theorem rejection_is_error_object_counterexample:
  "settled (findById stub_env
              (stub_client (Raises (JObj [(''status'', JNum 200), (''data'', JNum 42)])))
              (JStr ''u1'') (JStr ''token'') 0)
     = Rejected (Data (JNum 42))
   \<and> \<not> status_and_message (Data (JNum 42))"
  by (simp add: findById_def dispatch_def stub_client_def await_resolve_def
        catch_reject_def returnData_def lodash_get_def)

text \<open>
  C7, amended. For every operation and every input, whenever the promise is rejected,
  the rejection value is the bad-request error object that \<open>Boom.badRequest\<close> built from a
  message, except when the transport call raised a value whose \<open>status\<close> is 200: then
  it is that value's \<open>data\<close> field (the empty object when it has none).
\<close>

theorem rejection_value_shape:
  assumes "settled (invoke env client call s) = Rejected v"
  shows "(\<exists>m. v = BoomBadRequest m)
       \<or> (\<exists>req ex. calls (invoke env client call s) = [req]
             \<and> fst (client req s) = Raises ex
             \<and> js_prop ex ''status'' = JNum 200
             \<and> v = Data (lodash_get ex ''data'' (JObj [])))"
proof (cases "validates env call")
  case False
  from invalid_throws [OF this, of client s] obtain sch w where
    "invoke env client call s = thrown_before_dispatch env (ValidationError env sch w) s"
    by auto
  with assms show ?thesis
    by (auto simp: thrown_before_dispatch_sel catch_reject_ValidationError)
next
  case True
  from valid_dispatches [OF this, of client s] obtain req where
    r: "invoke env client call s = dispatch env client req s"
    by auto
  with assms have a: "await_resolve env (fst (client req s)) = Rejected v"
    by (simp add: dispatch_sel)
  show ?thesis
  proof (cases "fst (client req s)")
    case (Returns resp)
    with a have "\<exists>m. v = BoomBadRequest m"
      by (auto simp: await_resolve_def returnData_def catch_reject_TypeError
               split: if_splits)
    then show ?thesis ..
  next
    case (Raises ex)
    with a have "(\<exists>m. v = BoomBadRequest m)
        \<or> (js_prop ex ''status'' = JNum 200 \<and> v = Data (lodash_get ex ''data'' (JObj [])))"
      by (auto simp: await_resolve_def catch_reject_def returnData_def split: if_splits)
    with r Raises show ?thesis
      by (auto simp: dispatch_sel)
  next
    case NeverSettles
    with a show ?thesis
      by (simp add: await_resolve_def)
  qed
qed

theorem rejection_value_shape_witness:
  "settled (invoke stub_env
      (stub_client (Raises (JObj [(''status'', JNum 502), (''message'', JStr ''bad gateway'')])))
      (FindById (JStr ''u1'') (JStr ''token'')) 0)
     = Rejected (BoomBadRequest (JStr ''bad gateway''))
   \<and> ((\<exists>m. BoomBadRequest (JStr ''bad gateway'') = BoomBadRequest m)
      \<or> (\<exists>req ex. calls (invoke stub_env
             (stub_client (Raises (JObj [(''status'', JNum 502),
                                         (''message'', JStr ''bad gateway'')])))
             (FindById (JStr ''u1'') (JStr ''token'')) 0) = [req]
           \<and> fst (stub_client (Raises (JObj [(''status'', JNum 502),
                                              (''message'', JStr ''bad gateway'')])) req 0)
               = Raises ex
           \<and> js_prop ex ''status'' = JNum 200
           \<and> BoomBadRequest (JStr ''bad gateway'') = Data (lodash_get ex ''data'' (JObj []))))"
proof -
  let ?cl = "stub_client (Raises (JObj [(''status'', JNum 502),
                                        (''message'', JStr ''bad gateway'')]))"
  have h: "settled (invoke stub_env ?cl (FindById (JStr ''u1'') (JStr ''token'')) 0)
             = Rejected (BoomBadRequest (JStr ''bad gateway''))"
    by (simp add: findById_def dispatch_sel stub_client_def await_resolve_def
          catch_reject_def returnData_def lodash_get_def)
  from h rejection_value_shape [OF h] show ?thesis
    by (rule conjI)
qed

end
